theory Spec2Isabelle
  imports Main
begin

section \<open>The task interchange engine of the node web interface (\<open>lib/csv\<close>)\<close>

text \<open>
  The development embeds the CSV import and export functions of the web interface
  (\<open>parseCSVLine\<close>, \<open>parseHeader\<close>, \<open>validateRequiredKeys\<close>, \<open>findColumnIndices\<close>,
  \<open>buildContent\<close>, \<open>processRow\<close>, \<open>parseCSV\<close>, \<open>escapeCSVValue\<close>, \<open>generateCSV\<close>) and
  the JavaScript built-ins they call.

  A JavaScript string is modelled by a HOL \<open>string\<close>, one \<open>char\<close> per code unit. The
  model is exact on ASCII text. A \<open>char\<close> above \<open>0x7F\<close> stands for a code unit that is
  neither white space nor a cased letter; the Unicode white space and case mappings
  beyond ASCII are not modelled, nor are the code units above \<open>0xFF\<close> that a JSON escape
  can name. Logging (\<open>console.error\<close> for a skipped row) is left out.
\<close>

subsection \<open>String built-ins\<close>

text \<open>\<open>String.prototype.trim\<close>: the white space and line terminators of ASCII.\<close>

definition is_space :: "char \<Rightarrow> bool" where
  "is_space c = (c \<in> set [CHR 0x09, CHR 0x0A, CHR 0x0B, CHR 0x0C, CHR 0x0D, CHR 0x20])"

definition trim :: "string \<Rightarrow> string" where
  "trim s = rev (dropWhile is_space (rev (dropWhile is_space s)))"

definition lower_letters :: string where
  "lower_letters = ''abcdefghijklmnopqrstuvwxyz''"

definition upper_letters :: string where
  "upper_letters = ''ABCDEFGHIJKLMNOPQRSTUVWXYZ''"

definition translate :: "string \<Rightarrow> string \<Rightarrow> char \<Rightarrow> char" where
  "translate from to c = (case map_of (zip from to) c of Some d \<Rightarrow> d | None \<Rightarrow> c)"

definition toLowerCase :: "string \<Rightarrow> string" where
  "toLowerCase s = map (translate upper_letters lower_letters) s"

definition toUpperCase :: "string \<Rightarrow> string" where
  "toUpperCase s = map (translate lower_letters upper_letters) s"

text \<open>\<open>s.split(sep)\<close> for a one-character separator: never the empty array.\<close>

fun split :: "char \<Rightarrow> string \<Rightarrow> string list" where
  "split sep [] = [[]]"
| "split sep (c # cs) =
     (if c = sep then [] # split sep cs
      else (case split sep cs of [] \<Rightarrow> [[c]] | x # xs \<Rightarrow> (c # x) # xs))"

text \<open>\<open>xs.join(sep)\<close>.\<close>

fun join :: "string \<Rightarrow> string list \<Rightarrow> string" where
  "join sep [] = []"
| "join sep [x] = x"
| "join sep (x # y # ys) = x @ sep @ join sep (y # ys)"

text \<open>\<open>xs[i]\<close>: \<open>undefined\<close> outside the array.\<close>

definition at :: "'a list \<Rightarrow> int \<Rightarrow> 'a option" where
  "at xs i = (if 0 \<le> i \<and> i < int (length xs) then Some (xs ! nat i) else None)"

text \<open>\<open>xs.findIndex(p)\<close>: the first index whose element satisfies \<open>p\<close>, or \<open>-1\<close>.\<close>

fun findIndex :: "('a \<Rightarrow> bool) \<Rightarrow> 'a list \<Rightarrow> int" where
  "findIndex p [] = - 1"
| "findIndex p (x # xs) =
     (if p x then 0 else (let r = findIndex p xs in if r = - 1 then - 1 else r + 1))"

subsection \<open>JSON values\<close>

text \<open>
  A number is kept as its decimal expansion: a sign, the significant digits without
  leading or trailing zeros (none for zero) and the position \<open>n\<close> of the decimal point,
  the value being \<open>0.digits * 10 ^ n\<close>. JavaScript rounds a literal to a double; the
  two agree on literals of at most 15 significant digits whose value is zero or lies in
  the range of the normal doubles; the model does not round, so it differs on longer
  literals and on literals that overflow, underflow or fall among the subnormal doubles.

  An object is the list of its own properties in the order JavaScript enumerates them.
\<close>

datatype json =
    JNull
  | JBool bool
  | JNum bool string int
  | JStr string
  | JArr "json list"
  | JObj "(string \<times> json) list"

type_synonym obj = "(string \<times> json) list"

definition is_digit :: "char \<Rightarrow> bool" where
  "is_digit c = (c \<in> set ''0123456789'')"

definition digit_val :: "char \<Rightarrow> int" where
  "digit_val c = of_char c - 48"

definition int_of_digits :: "string \<Rightarrow> int" where
  "int_of_digits ds = foldl (\<lambda>n c. 10 * n + digit_val c) 0 ds"

definition digit_char :: "nat \<Rightarrow> char" where
  "digit_char n = ''0123456789abcdef'' ! n"

fun show_nat :: "nat \<Rightarrow> string" where
  "show_nat n = (if n < 10 then [digit_char n] else show_nat (n div 10) @ [digit_char (n mod 10)])"

declare show_nat.simps [simp del]

text \<open>
  Own property order of an ordinary object: the array indices (canonical numerals below
  \<open>2^32 - 1\<close>) ascending, then the other keys in creation order.
\<close>

definition is_array_index :: "string \<Rightarrow> bool" where
  "is_array_index k =
     (k \<noteq> [] \<and> list_all is_digit k \<and> (hd k \<noteq> CHR ''0'' \<or> length k = 1)
      \<and> length k \<le> 10 \<and> int_of_digits k < 4294967295)"

fun insert_index :: "string \<Rightarrow> json \<Rightarrow> obj \<Rightarrow> obj" where
  "insert_index k v [] = [(k, v)]"
| "insert_index k v ((k', v') # ms) =
     (if is_array_index k' \<and> int_of_digits k' < int_of_digits k
      then (k', v') # insert_index k v ms
      else (k, v) # (k', v') # ms)"

text \<open>Creating or overwriting an own data property (\<open>CreateDataProperty\<close>).\<close>

definition obj_set :: "string \<Rightarrow> json \<Rightarrow> obj \<Rightarrow> obj" where
  "obj_set k v ms =
     (if k \<in> set (map fst ms) then map (\<lambda>(k', v'). if k' = k then (k', v) else (k', v')) ms
      else if is_array_index k then insert_index k v ms
      else ms @ [(k, v)])"

text \<open>
  \<open>o[k] = v\<close> on an object created by a literal: an ordinary set, except that the key
  \<open>__proto__\<close> reaches the accessor of \<open>Object.prototype\<close> and creates no own property.
\<close>

definition js_set :: "string \<Rightarrow> json \<Rightarrow> obj \<Rightarrow> obj" where
  "js_set k v ms = (if k = ''__proto__'' then ms else obj_set k v ms)"

text \<open>\<open>Object.assign(target, source)\<close>: sets each own property of the source, in order.\<close>

definition Object_assign :: "obj \<Rightarrow> obj \<Rightarrow> obj" where
  "Object_assign target source = foldl (\<lambda>t (k, v). js_set k v t) target source"

subsection \<open>\<open>JSON.stringify\<close>\<close>

text \<open>\<open>Number::toString\<close> in radix 10.\<close>

definition number_to_string :: "bool \<Rightarrow> string \<Rightarrow> int \<Rightarrow> string" where
  "number_to_string neg ds n =
     (if ds = [] then ''0''
      else (if neg then ''-'' else '''') @
        (let k = int (length ds) in
         if k \<le> n \<and> n \<le> 21 then ds @ replicate (nat (n - k)) (CHR ''0'')
         else if 0 < n \<and> n \<le> 21 then take (nat n) ds @ ''.'' @ drop (nat n) ds
         else if - 6 < n \<and> n \<le> 0 then ''0.'' @ replicate (nat (- n)) (CHR ''0'') @ ds
         else (if k = 1 then ds else [hd ds] @ ''.'' @ tl ds) @ ''e''
              @ (if n - 1 < 0 then ''-'' else ''+'') @ show_nat (nat \<bar>n - 1\<bar>)))"

text \<open>\<open>QuoteJSONString\<close>.\<close>

definition quote_char :: "char \<Rightarrow> string" where
  \<open>quote_char c =
     (if c = CHR ''"'' then [CHR 0x5C, CHR ''"'']
      else if c = CHR 0x5C then [CHR 0x5C, CHR 0x5C]
      else if c = CHR 0x08 then [CHR 0x5C, CHR ''b'']
      else if c = CHR 0x09 then [CHR 0x5C, CHR ''t'']
      else if c = CHR 0x0A then [CHR 0x5C, CHR ''n'']
      else if c = CHR 0x0C then [CHR 0x5C, CHR ''f'']
      else if c = CHR 0x0D then [CHR 0x5C, CHR ''r'']
      else if (of_char c :: nat) < 32
        then [CHR 0x5C, CHR ''u'', CHR ''0'', CHR ''0'',
              digit_char (of_char c div 16), digit_char (of_char c mod 16)]
      else [c])\<close>

definition quote_string :: "string \<Rightarrow> string" where
  \<open>quote_string s = [CHR ''"''] @ concat (map quote_char s) @ [CHR ''"'']\<close>

fun JSON_stringify :: "json \<Rightarrow> string"
  and stringify_elements :: "json list \<Rightarrow> string list"
  and stringify_members :: "(string \<times> json) list \<Rightarrow> string list" where
  "JSON_stringify JNull = ''null''"
| "JSON_stringify (JBool b) = (if b then ''true'' else ''false'')"
| "JSON_stringify (JNum neg ds n) = number_to_string neg ds n"
| "JSON_stringify (JStr s) = quote_string s"
| "JSON_stringify (JArr xs) = ''['' @ join '','' (stringify_elements xs) @ '']''"
| "JSON_stringify (JObj ms) = ''{'' @ join '','' (stringify_members ms) @ ''}''"
| "stringify_elements [] = []"
| "stringify_elements (x # xs) = JSON_stringify x # stringify_elements xs"
| "stringify_members [] = []"
| "stringify_members ((k, v) # ms) =
     (quote_string k @ '':'' @ JSON_stringify v) # stringify_members ms"

subsection \<open>\<open>JSON.parse\<close>\<close>

text \<open>
  The text is cut into tokens, and the tokens drive a machine with an explicit stack of
  the containers under construction. \<open>None\<close> is the \<open>SyntaxError\<close> of JavaScript.
\<close>

datatype token =
    TLBrace | TRBrace | TLBracket | TRBracket | TColon | TComma
  | TScalar json

definition is_json_space :: "char \<Rightarrow> bool" where
  "is_json_space c = (c \<in> set [CHR 0x20, CHR 0x09, CHR 0x0A, CHR 0x0D])"

definition hex_val :: "char \<Rightarrow> nat option" where
  "hex_val c =
     (if is_digit c then Some (nat (digit_val c))
      else map_of (zip ''abcdefABCDEF'' [10, 11, 12, 13, 14, 15, 10, 11, 12, 13, 14, 15]) c)"

text \<open>
  \<open>\uXXXX\<close>: the code unit with that number. The character type ends at \<open>0xFF\<close>; an
  escape above it is outside the model and is refused.
\<close>

definition unicode_escape :: "char \<Rightarrow> char \<Rightarrow> char \<Rightarrow> char \<Rightarrow> char option" where
  "unicode_escape h1 h2 h3 h4 =
     (case (hex_val h1, hex_val h2, hex_val h3, hex_val h4) of
        (Some a, Some b, Some c, Some d) \<Rightarrow>
          (if a = 0 \<and> b = 0 then Some (char_of (16 * c + d)) else None)
      | _ \<Rightarrow> None)"

definition simple_escape :: "char \<Rightarrow> char option" where
  \<open>simple_escape e =
     map_of [(CHR ''"'', CHR ''"''), (CHR 0x5C, CHR 0x5C), (CHR ''/'', CHR ''/''),
             (CHR ''b'', CHR 0x08), (CHR ''f'', CHR 0x0C), (CHR ''n'', CHR 0x0A),
             (CHR ''r'', CHR 0x0D), (CHR ''t'', CHR 0x09)] e\<close>

definition consumed :: "char \<Rightarrow> (string \<times> string) option \<Rightarrow> (string \<times> string) option" where
  "consumed c r = map_option (\<lambda>(s, rest). (c # s, rest)) r"

text \<open>The body of a string literal, after its opening quote: the value and the rest.\<close>

fun lex_string :: "string \<Rightarrow> (string \<times> string) option" where
  "lex_string [] = None"
| \<open>lex_string (c # cs) =
     (if c = CHR ''"'' then Some ([], cs)
      else if c = CHR 0x5C then
        (case cs of
           [] \<Rightarrow> None
         | e # cs' \<Rightarrow>
            (if e = CHR ''u'' then
               (case cs' of
                  h1 # h2 # h3 # h4 # cs'' \<Rightarrow>
                    (case unicode_escape h1 h2 h3 h4 of
                       None \<Rightarrow> None
                     | Some u \<Rightarrow> consumed u (lex_string cs''))
                | _ \<Rightarrow> None)
             else (case simple_escape e of
                     None \<Rightarrow> None
                   | Some u \<Rightarrow> consumed u (lex_string cs'))))
      else if (of_char c :: nat) < 32 then None
      else consumed c (lex_string cs))\<close>

lemma lex_string_shorter: "lex_string cs = Some (s, rest) \<Longrightarrow> length rest < length cs"
proof (induction cs arbitrary: s rest rule: lex_string.induct)
  case 1
  then show ?case by simp
next
  case (2 c cs)
  show ?case
    using "2.prems" "2.IH"
    by (fastforce simp: consumed_def split: if_splits list.splits option.splits)
qed

text \<open>
  A number literal: \<open>-? (0 | [1-9][0-9]*) (. [0-9]+)? ([eE] [+-]? [0-9]+)?\<close>, read off the
  longest run of number characters (no token that may follow a number starts with one).
\<close>

definition is_numchar :: "char \<Rightarrow> bool" where
  "is_numchar c = (is_digit c \<or> c \<in> set ''+-.eE'')"

definition decimal :: "bool \<Rightarrow> string \<Rightarrow> int \<Rightarrow> json" where
  "decimal neg ds n =
     (let z = length (takeWhile (\<lambda>c. c = CHR ''0'') ds);
          sig = rev (dropWhile (\<lambda>c. c = CHR ''0'') (rev (drop z ds)))
      in if sig = [] then JNum neg [] 0 else JNum neg sig (n - int z))"

definition parse_number :: "string \<Rightarrow> json option" where
  "parse_number s =
     (let neg = (s \<noteq> [] \<and> hd s = CHR ''-'');
          s1 = (if neg then tl s else s);
          ip = takeWhile is_digit s1;
          s2 = dropWhile is_digit s1;
          has_frac = (s2 \<noteq> [] \<and> hd s2 = CHR ''.'');
          fp = (if has_frac then takeWhile is_digit (tl s2) else []);
          s3 = (if has_frac then dropWhile is_digit (tl s2) else s2);
          has_exp = (s3 \<noteq> [] \<and> hd s3 \<in> set ''eE'');
          s4 = (if has_exp then tl s3 else s3);
          eneg = (has_exp \<and> s4 \<noteq> [] \<and> hd s4 = CHR ''-'');
          s5 = (if has_exp \<and> s4 \<noteq> [] \<and> hd s4 \<in> set ''+-'' then tl s4 else s4);
          ep = (if has_exp then takeWhile is_digit s5 else []);
          s6 = (if has_exp then dropWhile is_digit s5 else s5);
          ex = (if eneg then - int_of_digits ep else int_of_digits ep)
      in if ip = [] \<or> (hd ip = CHR ''0'' \<and> length ip \<noteq> 1) \<or> (has_frac \<and> fp = [])
            \<or> (has_exp \<and> ep = []) \<or> s6 \<noteq> []
         then None
         else Some (decimal neg (ip @ fp) (int (length ip) + ex)))"

definition emit :: "token \<Rightarrow> token list option \<Rightarrow> token list option" where
  "emit t r = map_option ((#) t) r"

function json_lex :: "string \<Rightarrow> token list option" where
  "json_lex [] = Some []"
| \<open>json_lex (c # cs) =
     (if is_json_space c then json_lex cs
      else if c = CHR ''{'' then emit TLBrace (json_lex cs)
      else if c = CHR ''}'' then emit TRBrace (json_lex cs)
      else if c = CHR ''['' then emit TLBracket (json_lex cs)
      else if c = CHR '']'' then emit TRBracket (json_lex cs)
      else if c = CHR '':'' then emit TColon (json_lex cs)
      else if c = CHR '','' then emit TComma (json_lex cs)
      else if c = CHR ''"'' then
        (case lex_string cs of
           None \<Rightarrow> None
         | Some (s, rest) \<Rightarrow> emit (TScalar (JStr s)) (json_lex rest))
      else if c = CHR ''-'' \<or> is_digit c then
        (case parse_number (takeWhile is_numchar (c # cs)) of
           None \<Rightarrow> None
         | Some v \<Rightarrow> emit (TScalar v) (json_lex (dropWhile is_numchar cs)))
      else if c = CHR ''t'' \<and> take 3 cs = ''rue'' then emit (TScalar (JBool True)) (json_lex (drop 3 cs))
      else if c = CHR ''f'' \<and> take 4 cs = ''alse'' then emit (TScalar (JBool False)) (json_lex (drop 4 cs))
      else if c = CHR ''n'' \<and> take 3 cs = ''ull'' then emit (TScalar JNull) (json_lex (drop 3 cs))
      else None)\<close>
  by pat_completeness auto
termination
proof (relation "measure length")
  fix c cs x2 x y
  assume "lex_string cs = Some x2" "(x, y) = x2"
  then show "(y, c # cs) \<in> measure length"
    using lex_string_shorter [of cs x y] by simp
qed (auto simp: le_imp_less_Suc length_dropWhile_le)

declare json_lex.simps [simp del]

text \<open>
  The parser. A frame is a container whose next value is awaited: an array with the
  elements read so far, or an object with its members and the key of the awaited value.
\<close>

datatype frame = FArr "json list" | FObj obj string

datatype pstate =
    PValue "frame list"
  | PArrStart "frame list"
  | PAfterElem "json list" "frame list"
  | PObjStart "frame list"
  | PKey obj "frame list"
  | PColon obj string "frame list"
  | PAfterMember obj "frame list"
  | PDone json

fun complete :: "json \<Rightarrow> frame list \<Rightarrow> pstate" where
  "complete v [] = PDone v"
| "complete v (FArr es # st) = PAfterElem (es @ [v]) st"
| "complete v (FObj ms k # st) = PAfterMember (obj_set k v ms) st"

fun begin_value :: "frame list \<Rightarrow> token \<Rightarrow> pstate option" where
  "begin_value st (TScalar v) = Some (complete v st)"
| "begin_value st TLBracket = Some (PArrStart st)"
| "begin_value st TLBrace = Some (PObjStart st)"
| "begin_value st _ = None"

fun pstep :: "pstate \<Rightarrow> token \<Rightarrow> pstate option" where
  "pstep (PValue st) t = begin_value st t"
| "pstep (PArrStart st) t =
     (if t = TRBracket then Some (complete (JArr []) st) else begin_value (FArr [] # st) t)"
| "pstep (PAfterElem es st) t =
     (if t = TComma then Some (PValue (FArr es # st))
      else if t = TRBracket then Some (complete (JArr es) st)
      else None)"
| "pstep (PObjStart st) t =
     (case t of
        TRBrace \<Rightarrow> Some (complete (JObj []) st)
      | TScalar (JStr k) \<Rightarrow> Some (PColon [] k st)
      | _ \<Rightarrow> None)"
| "pstep (PKey ms st) t =
     (case t of TScalar (JStr k) \<Rightarrow> Some (PColon ms k st) | _ \<Rightarrow> None)"
| "pstep (PColon ms k st) t = (if t = TColon then Some (PValue (FObj ms k # st)) else None)"
| "pstep (PAfterMember ms st) t =
     (if t = TComma then Some (PKey ms st)
      else if t = TRBrace then Some (complete (JObj ms) st)
      else None)"
| "pstep (PDone v) t = None"

fun prun :: "pstate \<Rightarrow> token list \<Rightarrow> pstate option" where
  "prun p [] = Some p"
| "prun p (t # ts) = (case pstep p t of None \<Rightarrow> None | Some p' \<Rightarrow> prun p' ts)"

definition JSON_parse :: "string \<Rightarrow> json option" where
  "JSON_parse text =
     (case json_lex text of
        None \<Rightarrow> None
      | Some ts \<Rightarrow> (case prun (PValue []) ts of Some (PDone v) \<Rightarrow> Some v | _ \<Rightarrow> None))"

subsection \<open>The \<open>Map\<close> of JavaScript\<close>

text \<open>
  A \<open>Map\<close> iterates in insertion order, and setting a key that is present keeps its
  place: an association list with distinct keys.
\<close>

type_synonym ('k, 'v) js_map = "('k \<times> 'v) list"

definition map_has :: "('k, 'v) js_map \<Rightarrow> 'k \<Rightarrow> bool" where
  "map_has m k = (k \<in> set (map fst m))"

definition map_get :: "('k, 'v) js_map \<Rightarrow> 'k \<Rightarrow> 'v option" where
  "map_get m k = map_of m k"

definition map_set :: "'k \<Rightarrow> 'v \<Rightarrow> ('k, 'v) js_map \<Rightarrow> ('k, 'v) js_map" where
  "map_set k v m =
     (if map_has m k then map (\<lambda>(k', v'). if k' = k then (k', v) else (k', v')) m
      else m @ [(k, v)])"

subsection \<open>Import: \<open>parseCSV\<close> and its helpers\<close>

record CSVRow =
  name :: string
  content :: string
  type :: string
  metadata :: string

definition COLUMN_NAME :: string where "COLUMN_NAME = ''name''"
definition COLUMN_CONTENT :: string where "COLUMN_CONTENT = ''content''"
definition COLUMN_TYPE :: string where "COLUMN_TYPE = ''type''"
definition COLUMN_METADATA :: string where "COLUMN_METADATA = ''metadata''"

definition REQUIRED_KEYS :: "string list" where
  "REQUIRED_KEYS = [COLUMN_NAME, COLUMN_TYPE]"

definition KEYS_OUTSIDE_CONTENT :: "string list" where
  "KEYS_OUTSIDE_CONTENT = [COLUMN_NAME, COLUMN_TYPE, COLUMN_METADATA]"

text \<open>
  The errors thrown by the import. The first three leave \<open>parseCSV\<close>; the last two are
  thrown by \<open>processRow\<close> and caught in the loop of \<open>parseCSV\<close>, which logs them.
\<close>

datatype error =
    NoLines
  | NoColumnNames
  | RequiredKeysNotInHeader
  | EmptyRow
  | RequiredKeysNotInRow

text \<open>
  The loop of \<open>parseCSVLine\<close> over the characters of the line, with its three variables
  \<open>values\<close>, \<open>current\<close> and \<open>inQuotes\<close>; \<open>rest\<close> is the line from \<open>i + 1\<close> on.
\<close>

fun scanLine :: "string list \<Rightarrow> string \<Rightarrow> bool \<Rightarrow> string \<Rightarrow> string list" where
  "scanLine values current inQuotes [] = values @ [trim current]"
| \<open>scanLine values current inQuotes (c # rest) =
     (if c = CHR ''"'' then
        (if inQuotes \<and> rest \<noteq> [] \<and> hd rest = CHR ''"''
         then scanLine values (current @ [CHR ''"'']) inQuotes (tl rest)
         else scanLine values current (\<not> inQuotes) rest)
      else if c = CHR '','' \<and> \<not> inQuotes then scanLine (values @ [trim current]) [] inQuotes rest
      else scanLine values (current @ [c]) inQuotes rest)\<close>

definition parseCSVLine :: "string \<Rightarrow> string list" where
  "parseCSVLine line = scanLine [] [] False line"

definition parseHeader :: "string \<Rightarrow> string list option" where
  "parseHeader headerLine =
     (let columnNames = filter (\<lambda>col. col \<noteq> []) (map trim (parseCSVLine headerLine))
      in if length columnNames = 0 then None else Some columnNames)"

definition findColumnIndices :: "string list \<Rightarrow> string list \<Rightarrow> (int, string) js_map" where
  "findColumnIndices columnNames keys =
     foldl (\<lambda>indices key.
              (let index = findIndex (\<lambda>col. toLowerCase col = toLowerCase key) columnNames
               in if index \<noteq> - 1 then map_set index key indices else indices))
           [] keys"

fun requiredKeysLoop ::
  "string list \<Rightarrow> (int, string) js_map \<Rightarrow> string list \<Rightarrow> (int, string) js_map option" where
  "requiredKeysLoop columnNames requiredKeysIndices [] = Some requiredKeysIndices"
| "requiredKeysLoop columnNames requiredKeysIndices (key # keys) =
     (let index = findIndex (\<lambda>col. toLowerCase col = toLowerCase key) columnNames
      in if index = - 1 then None
         else requiredKeysLoop columnNames (map_set index key requiredKeysIndices) keys)"

definition validateRequiredKeys :: "string list \<Rightarrow> (int, string) js_map option" where
  "validateRequiredKeys columnNames = requiredKeysLoop columnNames [] REQUIRED_KEYS"

definition findContentColumnIndex :: "string list \<Rightarrow> int" where
  "findContentColumnIndex columnNames =
     findIndex (\<lambda>col. toLowerCase col = toLowerCase COLUMN_CONTENT) columnNames"

text \<open>\<open>values[index]?.trim()\<close>.\<close>

definition trimmedAt :: "string list \<Rightarrow> int \<Rightarrow> string option" where
  "trimmedAt values index = map_option trim (at values index)"

text \<open>\<open>v || ""\<close> for a string or \<open>undefined\<close>.\<close>

definition orEmpty :: "string option \<Rightarrow> string" where
  "orEmpty v = (case v of None \<Rightarrow> [] | Some s \<Rightarrow> if s \<noteq> [] then s else [])"

definition extractKeysOutsideContent ::
  "string list \<Rightarrow> (int, string) js_map \<Rightarrow> (string, string) js_map" where
  "extractKeysOutsideContent values keysOutsideContentIndices =
     foldl (\<lambda>keysOutsideContentValues (index, key).
              (case trimmedAt values index of
                 Some v \<Rightarrow> map_set key v keysOutsideContentValues
               | None \<Rightarrow> keysOutsideContentValues))
           [] keysOutsideContentIndices"

text \<open>One iteration of the first loop of \<open>buildContent\<close>.\<close>

definition addColumn ::
  "string list \<Rightarrow> string list \<Rightarrow> (int, string) js_map \<Rightarrow> int \<Rightarrow> obj \<Rightarrow> nat \<Rightarrow> obj" where
  "addColumn values columnNames keysOutsideContentIndices contentColumnIndex contentObject i =
     (if \<not> map_has keysOutsideContentIndices (int i) \<and> int i \<noteq> contentColumnIndex then
        (case trimmedAt values (int i) of
           None \<Rightarrow> contentObject
         | Some v \<Rightarrow>
            (if v \<noteq> [] then
               (let columnName = columnNames ! i;
                    upperKey = toUpperCase columnName
                in case JSON_parse v of
                     Some parsedValue \<Rightarrow> js_set upperKey parsedValue contentObject
                   | None \<Rightarrow> js_set upperKey (JStr v) contentObject)
             else contentObject))
      else contentObject)"

text \<open>The merge of the content column, the second part of \<open>buildContent\<close>.\<close>

definition mergeContentColumn :: "string list \<Rightarrow> int \<Rightarrow> obj \<Rightarrow> obj" where
  "mergeContentColumn values contentColumnIndex contentObject =
     (if contentColumnIndex \<noteq> - 1 then
        (case trimmedAt values contentColumnIndex of
           None \<Rightarrow> contentObject
         | Some contentColumnValue \<Rightarrow>
            (if contentColumnValue \<noteq> [] then
               (case JSON_parse contentColumnValue of
                  Some (JObj parsedContent) \<Rightarrow> Object_assign contentObject parsedContent
                | Some parsedContent \<Rightarrow> js_set ''CONTENT'' parsedContent contentObject
                | None \<Rightarrow> js_set ''CONTENT'' (JStr contentColumnValue) contentObject)
             else contentObject))
      else contentObject)"

definition buildContent ::
  "string list \<Rightarrow> string list \<Rightarrow> (int, string) js_map \<Rightarrow> int \<Rightarrow> string" where
  "buildContent values columnNames keysOutsideContentIndices contentColumnIndex =
     (let contentObject =
            foldl (addColumn values columnNames keysOutsideContentIndices contentColumnIndex)
                  [] [0 ..< min (length columnNames) (length values)]
      in JSON_stringify (JObj (mergeContentColumn values contentColumnIndex contentObject)))"

fun validateRowHasRequiredKeys :: "string list \<Rightarrow> (int, string) js_map \<Rightarrow> bool" where
  "validateRowHasRequiredKeys values [] = True"
| "validateRowHasRequiredKeys values ((index, key) # requiredKeysIndices) =
     (case trimmedAt values index of
        None \<Rightarrow> False
      | Some v \<Rightarrow> if v = [] then False
                  else validateRowHasRequiredKeys values requiredKeysIndices)"

text \<open>
  \<open>processRow\<close> is declared to return a row or \<open>null\<close>; no path returns \<open>null\<close>, so the
  model returns the row or the error thrown.
\<close>

definition processRow ::
  "string \<Rightarrow> string list \<Rightarrow> (int, string) js_map \<Rightarrow> (int, string) js_map \<Rightarrow> int
     \<Rightarrow> error + CSVRow" where
  "processRow line columnNames requiredKeysIndices keysOutsideContentIndices contentColumnIndex =
     (if trim line = [] then Inl EmptyRow
      else
        (let values = parseCSVLine line in
         if \<not> validateRowHasRequiredKeys values requiredKeysIndices then Inl RequiredKeysNotInRow
         else
           (let keysOutsideContentValues =
                  extractKeysOutsideContent values keysOutsideContentIndices;
                hasMetadata = map_has keysOutsideContentValues COLUMN_METADATA;
                finalContent =
                  (if hasMetadata \<and> contentColumnIndex \<noteq> - 1
                   then orEmpty (trimmedAt values contentColumnIndex)
                   else buildContent values columnNames keysOutsideContentIndices
                          contentColumnIndex)
            in Inr \<lparr>name = orEmpty (map_get keysOutsideContentValues COLUMN_NAME),
                    content = finalContent,
                    type = orEmpty (map_get keysOutsideContentValues COLUMN_TYPE),
                    metadata = orEmpty (map_get keysOutsideContentValues COLUMN_METADATA)\<rparr>)))"

text \<open>
  The loop of \<open>parseCSV\<close> over the data lines: a row is pushed, an error is caught and the
  line left out.
\<close>

fun importRows ::
  "string list \<Rightarrow> (int, string) js_map \<Rightarrow> (int, string) js_map \<Rightarrow> int
     \<Rightarrow> CSVRow list \<Rightarrow> string list \<Rightarrow> CSVRow list" where
  "importRows columnNames requiredKeysIndices keysOutsideContentIndices contentColumnIndex
     rows [] = rows"
| "importRows columnNames requiredKeysIndices keysOutsideContentIndices contentColumnIndex
     rows (line # dataLines) =
     (case processRow line columnNames requiredKeysIndices keysOutsideContentIndices
             contentColumnIndex of
        Inr row \<Rightarrow>
          importRows columnNames requiredKeysIndices keysOutsideContentIndices
            contentColumnIndex (rows @ [row]) dataLines
      | Inl err \<Rightarrow>
          importRows columnNames requiredKeysIndices keysOutsideContentIndices
            contentColumnIndex rows dataLines)"

definition parseCSV :: "string \<Rightarrow> error + CSVRow list" where
  "parseCSV csvText =
     (let lines = split (CHR 0x0A) (trim csvText) in
      if length lines = 0 \<or> length lines = 1 then Inl NoLines
      else
        (case parseHeader (hd lines) of
           None \<Rightarrow> Inl NoColumnNames
         | Some columnNames \<Rightarrow>
            (case validateRequiredKeys columnNames of
               None \<Rightarrow> Inl RequiredKeysNotInHeader
             | Some requiredKeysIndices \<Rightarrow>
                (let keysOutsideContentIndices =
                       findColumnIndices columnNames KEYS_OUTSIDE_CONTENT;
                     contentColumnIndex = findContentColumnIndex columnNames;
                     dataLines = tl lines
                 in Inr (importRows columnNames requiredKeysIndices keysOutsideContentIndices
                           contentColumnIndex [] dataLines)))))"

subsection \<open>Export: \<open>escapeCSVValue\<close> and \<open>generateCSV\<close>\<close>

text \<open>
  The values handed to the export are \<open>unknown\<close>; the model covers \<open>undefined\<close> and the
  values of JSON (\<open>null\<close>, booleans, numbers, strings, arrays and plain objects).
\<close>

datatype js_value = JSUndefined | JSValue json

definition isObject :: "json \<Rightarrow> bool" where
  "isObject v = (case v of JNull \<Rightarrow> True | JArr xs \<Rightarrow> True | JObj ms \<Rightarrow> True | _ \<Rightarrow> False)"

text \<open>\<open>String(value)\<close> on a string, a boolean or a number.\<close>

definition String :: "json \<Rightarrow> string" where
  "String v = (case v of JStr s \<Rightarrow> s | _ \<Rightarrow> JSON_stringify v)"

definition str_includes :: "string \<Rightarrow> char \<Rightarrow> bool" where
  "str_includes s c = (c \<in> set s)"

text \<open>\<open>stringValue.replace(/"/g, '""')\<close>.\<close>

definition doubleQuotes :: "string \<Rightarrow> string" where
  \<open>doubleQuotes s = concat (map (\<lambda>c. if c = CHR ''"'' then [CHR ''"'', CHR ''"''] else [c]) s)\<close>

fun escapeCSVValue :: "js_value \<Rightarrow> string" where
  "escapeCSVValue JSUndefined = []"
| "escapeCSVValue (JSValue JNull) = []"
| \<open>escapeCSVValue (JSValue v) =
     (let stringValue = (if isObject v then JSON_stringify v else String v)
      in if str_includes stringValue (CHR '','') \<or> str_includes stringValue (CHR ''"'')
            \<or> str_includes stringValue (CHR 0x0A)
         then [CHR ''"''] @ doubleQuotes stringValue @ [CHR ''"'']
         else stringValue)\<close>

declare escapeCSVValue.simps [simp del]


subsection \<open>Notions of the specification\<close>

text \<open>
  The definitions of this subsection are not code of the engine. They name what the
  specification speaks of, so that the properties below can be stated against the
  functions above.
\<close>

text \<open>
  The Tokenizer in the words of the specification. \<open>quoteState\<close> is the state
  ``inside a quoted field'' after a piece of a line. \<open>unquote\<close> reads a line with that
  state into the characters of its fields, \<open>None\<close> standing for a comma that ends a
  field: a quote toggles the state, except inside a quoted field when another quote
  follows, where the two give one literal quote. \<open>fieldsOf\<close> cuts at the field ends.
\<close>

fun quoteState :: "bool \<Rightarrow> string \<Rightarrow> bool" where
  "quoteState q [] = q"
| \<open>quoteState q (c # rest) =
     (if c = CHR ''"'' then
        (if q \<and> rest \<noteq> [] \<and> hd rest = CHR ''"'' then quoteState q (tl rest)
         else quoteState (\<not> q) rest)
      else quoteState q rest)\<close>

fun unquote :: "bool \<Rightarrow> string \<Rightarrow> char option list" where
  "unquote q [] = []"
| \<open>unquote q (c # rest) =
     (if c = CHR ''"'' then
        (if q \<and> rest \<noteq> [] \<and> hd rest = CHR ''"'' then Some (CHR ''"'') # unquote q (tl rest)
         else unquote (\<not> q) rest)
      else if c = CHR '','' \<and> \<not> q then None # unquote q rest
      else Some c # unquote q rest)\<close>

fun fieldsOf :: "char option list \<Rightarrow> string list" where
  "fieldsOf [] = [[]]"
| "fieldsOf (None # es) = [] # fieldsOf es"
| "fieldsOf (Some c # es) = (c # hd (fieldsOf es)) # tl (fieldsOf es)"

text \<open>
  The index of the column that plays the role \<open>key\<close>: the first header entry equal to
  the key up to case, \<open>-1\<close> when there is none. It is the \<open>findIndex\<close> call that
  \<open>validateRequiredKeys\<close>, \<open>findColumnIndices\<close> and \<open>findContentColumnIndex\<close> make.
\<close>

definition columnIndex :: "string list \<Rightarrow> string \<Rightarrow> int" where
  "columnIndex columnNames key = findIndex (\<lambda>col. toLowerCase col = toLowerCase key) columnNames"

text \<open>
  The two row-level problems: a blank line, and a row with an empty value, or no cell,
  at the index of a required column.
\<close>

definition isBlank :: "string \<Rightarrow> bool" where
  "isBlank line = (trim line = [])"

definition lacksRequired :: "string list \<Rightarrow> string list \<Rightarrow> bool" where
  "lacksRequired columnNames vs =
     (\<exists>key \<in> set REQUIRED_KEYS. orEmpty (trimmedAt vs (columnIndex columnNames key)) = [])"

text \<open>
  Export of imported Records. The repository has no function that hands Records to
  \<open>generateCSV\<close>; ``serializing the records'' is read as writing, for each header, the
  field of the Record with that name (\<open>row[header]\<close>, \<open>undefined\<close> for any other name).
  \<open>ROLE_COLUMNS\<close> lists the fields of a Record, \<open>documentText\<close> is the document with the given
  header and rows of values written as they are, and a \<open>plainValue\<close> is a value without
  comma, quote or newline and without white space at its ends.
\<close>

definition ROLE_COLUMNS :: "string list" where
  "ROLE_COLUMNS = [COLUMN_NAME, COLUMN_CONTENT, COLUMN_TYPE, COLUMN_METADATA]"



definition plainValue :: "string \<Rightarrow> bool" where
  \<open>plainValue v = (CHR '','' \<notin> set v \<and> CHR ''"'' \<notin> set v \<and> CHR 0x0A \<notin> set v \<and> trim v = v)\<close>


section \<open>Auxiliary facts\<close>

subsection \<open>Trimming and the loop of \<open>parseCSVLine\<close>\<close>

lemma rev_dropWhile_rev_prefix: "\<exists>w. u = rev (dropWhile P (rev u)) @ w"
proof -
  have "rev u = takeWhile P (rev u) @ dropWhile P (rev u)" by simp
  then have "u = rev (dropWhile P (rev u)) @ rev (takeWhile P (rev u))"
    by (metis rev_append rev_rev_ident)
  then show ?thesis ..
qed

lemma dropWhile_trim: "dropWhile is_space (trim s) = trim s"
proof (cases "trim s = []")
  case True
  then show ?thesis by simp
next
  case False
  define u where "u = dropWhile is_space s"
  obtain w where w: "u = trim s @ w"
    using rev_dropWhile_rev_prefix [of u is_space] by (auto simp: trim_def u_def)
  with False have "u \<noteq> []" and "hd (trim s) = hd u" by auto
  moreover have "\<not> is_space (hd u)"
    using \<open>u \<noteq> []\<close> unfolding u_def by (rule hd_dropWhile)
  ultimately show ?thesis
    using False by (simp add: dropWhile_eq_self_iff)
qed

lemma trim_idem: "trim (trim s) = trim s"
proof -
  have "rev (trim s) = dropWhile is_space (rev (dropWhile is_space s))"
    by (simp add: trim_def)
  then have "dropWhile is_space (rev (trim s)) = rev (trim s)" by simp
  then show ?thesis
    by (simp add: trim_def [of "trim s"] dropWhile_trim)
qed

lemma scan_values_append: "scanLine (ws @ vs) cur q s = ws @ scanLine vs cur q s"
  by (induction vs cur q s rule: scanLine.induct) simp_all

lemma scan_values: "scanLine vs cur q s = vs @ scanLine [] cur q s"
  using scan_values_append [of vs "[]"] by simp

lemma fieldsOf_nonempty: "fieldsOf es \<noteq> []"
  by (induction es rule: fieldsOf.induct) auto

lemma scan_refine:
  "scanLine vs cur q s
     = vs @ map trim ((cur @ hd (fieldsOf (unquote q s))) # tl (fieldsOf (unquote q s)))"
  by (induction vs cur q s rule: scanLine.induct) (simp_all add: fieldsOf_nonempty)

lemma scan_plain:
  \<open>CHR ''"'' \<notin> set s \<Longrightarrow> CHR '','' \<notin> set s \<Longrightarrow> scanLine vs cur q s = vs @ [trim (cur @ s)]\<close>
  by (induction s arbitrary: cur) auto

lemma scan_append_comma:
  "\<not> quoteState q a \<Longrightarrow>
     scanLine vs cur q (a @ CHR '','' # b) = scanLine (scanLine vs cur q a) [] False b"
proof (induction vs cur q a rule: scanLine.induct)
  case (1 "values" current inQuotes)
  then show ?case by simp
next
  case (2 "values" current inQuotes c rest)
  show ?case
  proof (cases rest)
    case Nil
    with 2 show ?thesis by (auto split: if_splits)
  next
    case (Cons d rest')
    with 2 show ?thesis by (auto split: if_splits)
  qed
qed

lemma parse_append_comma:
  "\<not> quoteState False a \<Longrightarrow> parseCSVLine (a @ CHR '','' # b) = parseCSVLine a @ parseCSVLine b"
  unfolding parseCSVLine_def
  using scan_values [of "scanLine [] [] False a" "[]" False b]
  by (simp add: scan_append_comma)

lemma scan_quoted:
  \<open>rest = [] \<or> hd rest \<noteq> CHR ''"'' \<Longrightarrow>
     scanLine vs cur True (doubleQuotes v @ CHR ''"'' # rest) = scanLine vs (cur @ v) False rest\<close>
  by (induction v arbitrary: cur) (auto simp: doubleQuotes_def)

lemma parse_trimmed: "map trim (parseCSVLine l) = parseCSVLine l"
  by (simp add: parseCSVLine_def scan_refine trim_idem)

subsection \<open>Column indices and the schema of a header\<close>

lemma findIndex_ge: "- 1 \<le> findIndex p xs"
  by (induction xs) (auto simp: Let_def)

lemma findIndex_none: "findIndex p xs = - 1 \<longleftrightarrow> (\<forall>x \<in> set xs. \<not> p x)"
proof (induction xs)
  case Nil
  then show ?case by simp
next
  case (Cons x xs)
  have "findIndex p xs + 1 \<noteq> - 1"
    using findIndex_ge [of p xs] by arith
  with Cons show ?case by (auto simp: Let_def)
qed

lemma findIndex_found:
  "findIndex p xs \<noteq> - 1 \<Longrightarrow>
     0 \<le> findIndex p xs \<and> findIndex p xs < int (length xs) \<and> p (xs ! nat (findIndex p xs))"
proof (induction xs)
  case Nil
  then show ?case by simp
next
  case (Cons x xs)
  show ?case
  proof (cases "p x")
    case True
    then show ?thesis by simp
  next
    case False
    with Cons.prems have ne: "findIndex p xs \<noteq> - 1" by (auto simp: Let_def split: if_splits)
    from Cons.IH [OF ne] False ne show ?thesis
      by (auto simp: Let_def nat_add_distrib)
  qed
qed

lemma columnIndex_distinct:
  assumes "columnIndex cols k1 \<noteq> - 1" and "toLowerCase k1 \<noteq> toLowerCase k2"
  shows "columnIndex cols k1 \<noteq> columnIndex cols k2"
proof
  assume eq: "columnIndex cols k1 = columnIndex cols k2"
  from assms(1) have "toLowerCase (cols ! nat (columnIndex cols k1)) = toLowerCase k1"
    unfolding columnIndex_def by (rule findIndex_found [THEN conjunct2, THEN conjunct2])
  moreover from assms(1) eq have "toLowerCase (cols ! nat (columnIndex cols k2)) = toLowerCase k2"
    unfolding columnIndex_def by (metis (mono_tags, lifting) findIndex_found)
  ultimately show False using eq assms(2) by simp
qed

lemma lower_keys:
  "toLowerCase COLUMN_NAME = ''name''" "toLowerCase COLUMN_TYPE = ''type''"
  "toLowerCase COLUMN_METADATA = ''metadata''" "toLowerCase COLUMN_CONTENT = ''content''"
  by code_simp+

lemma columnIndex_distinct_keys:
  "columnIndex cols COLUMN_NAME = - 1 \<or> columnIndex cols COLUMN_NAME \<noteq> columnIndex cols COLUMN_TYPE"
  "columnIndex cols COLUMN_NAME = - 1
     \<or> columnIndex cols COLUMN_NAME \<noteq> columnIndex cols COLUMN_METADATA"
  "columnIndex cols COLUMN_TYPE = - 1
     \<or> columnIndex cols COLUMN_TYPE \<noteq> columnIndex cols COLUMN_METADATA"
  using columnIndex_distinct [of cols COLUMN_NAME COLUMN_TYPE]
    columnIndex_distinct [of cols COLUMN_NAME COLUMN_METADATA]
    columnIndex_distinct [of cols COLUMN_TYPE COLUMN_METADATA]
  by (auto simp: lower_keys)

lemma validateRequiredKeys_eq:
  "validateRequiredKeys cols =
     (if columnIndex cols COLUMN_NAME = - 1 \<or> columnIndex cols COLUMN_TYPE = - 1 then None
      else Some [(columnIndex cols COLUMN_NAME, COLUMN_NAME), (columnIndex cols COLUMN_TYPE, COLUMN_TYPE)])"
  using columnIndex_distinct_keys(1) [of cols]
  by (auto simp: validateRequiredKeys_def REQUIRED_KEYS_def Let_def columnIndex_def [symmetric]
      map_set_def map_has_def)

lemma findColumnIndices_eq:
  "findColumnIndices cols KEYS_OUTSIDE_CONTENT =
     (if columnIndex cols COLUMN_NAME = - 1 then [] else [(columnIndex cols COLUMN_NAME, COLUMN_NAME)])
     @ (if columnIndex cols COLUMN_TYPE = - 1 then [] else [(columnIndex cols COLUMN_TYPE, COLUMN_TYPE)])
     @ (if columnIndex cols COLUMN_METADATA = - 1 then []
        else [(columnIndex cols COLUMN_METADATA, COLUMN_METADATA)])"
  using columnIndex_distinct_keys [of cols]
  by (auto simp: findColumnIndices_def KEYS_OUTSIDE_CONTENT_def Let_def columnIndex_def [symmetric]
      map_set_def map_has_def)

lemma at_neg: "at xs (- 1) = None"
  by (simp add: at_def)

lemma key_names_distinct:
  "COLUMN_NAME \<noteq> COLUMN_TYPE" "COLUMN_NAME \<noteq> COLUMN_METADATA" "COLUMN_TYPE \<noteq> COLUMN_METADATA"
  by (simp_all add: COLUMN_NAME_def COLUMN_TYPE_def COLUMN_METADATA_def)

lemma extract_get:
  assumes "key \<in> set KEYS_OUTSIDE_CONTENT"
  shows "map_get (extractKeysOutsideContent values (findColumnIndices cols KEYS_OUTSIDE_CONTENT)) key
           = trimmedAt values (columnIndex cols key)"
proof -
  from assms have "key = COLUMN_NAME \<or> key = COLUMN_TYPE \<or> key = COLUMN_METADATA"
    by (simp add: KEYS_OUTSIDE_CONTENT_def)
  then show ?thesis
    using key_names_distinct
    by (auto simp: findColumnIndices_eq extractKeysOutsideContent_def
        map_get_def map_set_def map_has_def trimmedAt_def at_neg split: option.splits)
qed

lemma map_has_get: "map_has m k \<longleftrightarrow> map_get m k \<noteq> None"
  by (simp add: map_has_def map_get_def map_of_eq_None_iff)

lemma extract_has:
  assumes "key \<in> set KEYS_OUTSIDE_CONTENT"
  shows "map_has (extractKeysOutsideContent values (findColumnIndices cols KEYS_OUTSIDE_CONTENT)) key
           \<longleftrightarrow> at values (columnIndex cols key) \<noteq> None"
  by (simp add: map_has_get extract_get [OF assms] trimmedAt_def)

subsection \<open>Rows and documents\<close>

lemma orEmpty_Some [simp]: "orEmpty (Some s) = s"
  by (simp add: orEmpty_def)

lemma orEmpty_None [simp]: "orEmpty None = []"
  by (simp add: orEmpty_def)

lemma keys_outside:
  "COLUMN_NAME \<in> set KEYS_OUTSIDE_CONTENT" "COLUMN_TYPE \<in> set KEYS_OUTSIDE_CONTENT"
  "COLUMN_METADATA \<in> set KEYS_OUTSIDE_CONTENT"
  by (simp_all add: KEYS_OUTSIDE_CONTENT_def)

text \<open>What a successful \<open>processRow\<close> returns, under the schema of the header.\<close>

lemma processRow_Inr:
  assumes "processRow line cols req (findColumnIndices cols KEYS_OUTSIDE_CONTENT) ci = Inr row"
  shows "name row = orEmpty (trimmedAt (parseCSVLine line) (columnIndex cols COLUMN_NAME))"
    and "type row = orEmpty (trimmedAt (parseCSVLine line) (columnIndex cols COLUMN_TYPE))"
    and "metadata row = orEmpty (trimmedAt (parseCSVLine line) (columnIndex cols COLUMN_METADATA))"
    and "content row =
          (if at (parseCSVLine line) (columnIndex cols COLUMN_METADATA) \<noteq> None \<and> ci \<noteq> - 1
           then orEmpty (trimmedAt (parseCSVLine line) ci)
           else buildContent (parseCSVLine line) cols (findColumnIndices cols KEYS_OUTSIDE_CONTENT) ci)"
    and "trim line \<noteq> []"
    and "validateRowHasRequiredKeys (parseCSVLine line) req"
  using assms
  by (auto simp: processRow_def Let_def extract_get [OF keys_outside(1)]
      extract_get [OF keys_outside(2)] extract_get [OF keys_outside(3)]
      extract_has [OF keys_outside(3)] split: if_splits)

lemma processRow_isl:
  "isl (processRow line cols req koc ci)
     \<longleftrightarrow> trim line = [] \<or> \<not> validateRowHasRequiredKeys (parseCSVLine line) req"
  by (simp add: processRow_def Let_def)

lemma validateRow_iff:
  "validateRowHasRequiredKeys vs req \<longleftrightarrow> (\<forall>(index, key) \<in> set req. orEmpty (trimmedAt vs index) \<noteq> [])"
  by (induction vs req rule: validateRowHasRequiredKeys.induct) (auto split: option.splits)

lemma importRows_eq:
  "importRows cols req koc ci rows dataLines
     = rows @ map projr (filter (\<lambda>r. \<not> isl r) (map (\<lambda>line. processRow line cols req koc ci) dataLines))"
proof (induction dataLines arbitrary: rows)
  case Nil
  then show ?case by simp
next
  case (Cons line dataLines)
  then show ?case by (cases "processRow line cols req koc ci") simp_all
qed

lemma at_parse_trimmed:
  "trimmedAt (parseCSVLine line) i = at (parseCSVLine line) i"
proof (cases "at (parseCSVLine line) i")
  case None
  then show ?thesis by (simp add: trimmedAt_def)
next
  case (Some cell)
  then have "cell \<in> set (parseCSVLine line)"
    by (auto simp: at_def split: if_splits)
  then have "trim cell = cell"
    using parse_trimmed [of line] by (metis map_idI map_eq_conv list.map_id)
  with Some show ?thesis by (simp add: trimmedAt_def)
qed

lemma parseCSV_Inr:
  assumes "parseCSV csvText = Inr rows"
  obtains headerLine dataLines cols req where
    "split (CHR 0x0A) (trim csvText) = headerLine # dataLines" "dataLines \<noteq> []"
    "parseHeader headerLine = Some cols" "validateRequiredKeys cols = Some req"
    "rows = importRows cols req (findColumnIndices cols KEYS_OUTSIDE_CONTENT)
              (findContentColumnIndex cols) [] dataLines"
proof -
  obtain headerLine dataLines where l: "split (CHR 0x0A) (trim csvText) = headerLine # dataLines"
    using assms by (cases "split (CHR 0x0A) (trim csvText)") (auto simp: parseCSV_def)
  with assms have ne: "dataLines \<noteq> []"
    by (auto simp: parseCSV_def)
  from assms l ne obtain cols where c: "parseHeader headerLine = Some cols"
    by (cases "parseHeader headerLine") (auto simp: parseCSV_def)
  from assms l ne c obtain req where r: "validateRequiredKeys cols = Some req"
    by (cases "validateRequiredKeys cols") (auto simp: parseCSV_def)
  from assms l ne c r have "rows = importRows cols req (findColumnIndices cols KEYS_OUTSIDE_CONTENT)
              (findContentColumnIndex cols) [] dataLines"
    by (auto simp: parseCSV_def Let_def)
  with l ne c r show ?thesis by (rule that)
qed

lemma parseCSV_valid:
  assumes "split (CHR 0x0A) (trim csvText) = headerLine # dataLines" "dataLines \<noteq> []"
    "parseHeader headerLine = Some cols" "validateRequiredKeys cols = Some req"
  shows "parseCSV csvText = Inr (importRows cols req (findColumnIndices cols KEYS_OUTSIDE_CONTENT)
              (findContentColumnIndex cols) [] dataLines)"
  using assms by (cases dataLines) (simp_all add: parseCSV_def Let_def)

lemma required_row_values:
  assumes "validateRequiredKeys cols = Some req"
    and "validateRowHasRequiredKeys vs req"
  shows "orEmpty (trimmedAt vs (columnIndex cols COLUMN_NAME)) \<noteq> []"
    and "orEmpty (trimmedAt vs (columnIndex cols COLUMN_TYPE)) \<noteq> []"
  using assms by (auto simp: validateRequiredKeys_eq validateRow_iff split: if_splits)

lemma columnIndex_none:
  "columnIndex cols key = - 1 \<longleftrightarrow> (\<forall>col \<in> set cols. toLowerCase col \<noteq> toLowerCase key)"
  by (simp add: columnIndex_def findIndex_none)

lemma length_fieldsOf: "length (fieldsOf es) = Suc (count_list es None)"
  by (induction es rule: fieldsOf.induct) (simp_all add: fieldsOf_nonempty)

lemma parse_refine: "parseCSVLine line = map trim (fieldsOf (unquote False line))"
  by (simp add: parseCSVLine_def scan_refine [of "[]" "[]"] fieldsOf_nonempty)

lemma parse_quoted:
  \<open>parseCSVLine ([CHR ''"''] @ doubleQuotes v @ [CHR ''"'']) = [trim v]\<close>
  using scan_quoted [of "[]" "[]" "[]" v] by (simp add: parseCSVLine_def)

lemma parse_empty: "parseCSVLine [] = [[]]"
  by (simp add: parseCSVLine_def trim_def)

lemma escape_string:
  \<open>escapeCSVValue (JSValue (JStr v)) =
     (if CHR '','' \<in> set v \<or> CHR ''"'' \<in> set v \<or> CHR 0x0A \<in> set v
      then [CHR ''"''] @ doubleQuotes v @ [CHR ''"''] else v)\<close>
  by (simp add: escapeCSVValue.simps isObject_def String_def str_includes_def doubleQuotes_def)

lemma parse_escape: "parseCSVLine (escapeCSVValue (JSValue (JStr v))) = [trim v]"
proof (cases \<open>CHR '','' \<in> set v \<or> CHR ''"'' \<in> set v \<or> CHR 0x0A \<in> set v\<close>)
  case True
  then show ?thesis
    unfolding escape_string using parse_quoted [of v] by simp
next
  case False
  then show ?thesis
    unfolding escape_string by (simp add: parseCSVLine_def scan_plain)
qed

subsection \<open>Documents of plain values\<close>

lemma trim_Nil [simp]: "trim [] = []"
  by (simp add: trim_def)



lemma split_nonempty [simp]: "split sep s \<noteq> []"
  by (induction s) (auto split: list.splits)








lemma role_columns_all:
  "list_all (\<lambda>k. plainValue k \<and> k \<noteq> [] \<and> toLowerCase k = k) ROLE_COLUMNS"
  by code_simp

lemma role_column:
  assumes "k \<in> set ROLE_COLUMNS"
  shows "plainValue k" and "k \<noteq> []" and "toLowerCase k = k"
  using assms role_columns_all by (auto simp: list_all_iff)




lemma columnIndex_absent:
  assumes "set header \<subseteq> set ROLE_COLUMNS" and "k \<in> set ROLE_COLUMNS" and "k \<notin> set header"
  shows "columnIndex header k = - 1"
  unfolding columnIndex_none
  using assms by (auto simp: role_column(3) subset_iff)





lemma hd_join: "x \<noteq> [] \<Longrightarrow> hd (join sep (x # xs)) = hd x"
  by (cases xs) simp_all

lemma join_Nil_iff: "join sep (x # xs) = [] \<Longrightarrow> x = []"
  by (cases xs) simp_all





section \<open>Properties\<close>

subsection \<open>The plaintext merge on the documented examples\<close>

text \<open>
  C1 as the specification states it fails. The keys that come from the content column's
  JSON object are merged by \<open>Object.assign\<close> as they are written, not uppercased: the
  document with header \<open>name,type,content,b\<close> and row \<open>Task,execute_actions,{"a":1},2\<close>
  has no content that parses to \<open>{"A":1,"B":2}\<close> in either key order, and the end-to-end
  example does not give the content \<open>{"SYMBOL":"BTC/USDT"}\<close>.
\<close>

theorem plaintext_merge_uppercase_counterexample:
  \<open>map (JSON_parse \<circ> content)
       (projr (parseCSV ''name,type,content,b\<newline>Task,execute_actions,"{""a"":1}",2''))
     \<noteq> [Some (JObj [(''A'', JNum False ''1'' 1), (''B'', JNum False ''2'' 1)])]
   \<and> map (JSON_parse \<circ> content)
       (projr (parseCSV ''name,type,content,b\<newline>Task,execute_actions,"{""a"":1}",2''))
     \<noteq> [Some (JObj [(''B'', JNum False ''2'' 1), (''A'', JNum False ''1'' 1)])]
   \<and> map content
       (projr (parseCSV
          ''name,type,content\<newline>"Grid Bot",execute_actions,"{""symbol"":""BTC/USDT""}"''))
     \<noteq> [''{"SYMBOL":"BTC/USDT"}'']\<close>
  by code_simp

text \<open>
  C1, amended: on the first example the Record's content is \<open>{"B":2,"a":1}\<close>, the key of
  the extra column uppercased and the key of the content column's object kept as written;
  on a key collision the value of the content column wins (\<open>{"B":1}\<close> from the content
  object \<open>{"B":1}\<close> and the extra column \<open>b\<close> holding \<open>2\<close>); the end-to-end example yields
  one Record with identity \<open>Grid Bot\<close>, type \<open>execute_actions\<close> and content
  \<open>{"symbol":"BTC/USDT"}\<close>.
\<close>

theorem plaintext_merge_examples:
  \<open>parseCSV ''name,type,content,b\<newline>Task,execute_actions,"{""a"":1}",2''
     = Inr [\<lparr>name = ''Task'', content = ''{"B":2,"a":1}'', type = ''execute_actions'',
             metadata = []\<rparr>]
   \<and> parseCSV ''name,type,content,b\<newline>Task,execute_actions,"{""B"":1}",2''
     = Inr [\<lparr>name = ''Task'', content = ''{"B":1}'', type = ''execute_actions'',
             metadata = []\<rparr>]
   \<and> parseCSV ''name,type,content\<newline>"Grid Bot",execute_actions,"{""symbol"":""BTC/USDT""}"''
     = Inr [\<lparr>name = ''Grid Bot'', content = ''{"symbol":"BTC/USDT"}'',
             type = ''execute_actions'', metadata = []\<rparr>]\<close>
  by code_simp

subsection \<open>Passthrough mode\<close>

text \<open>
  C2: let the header have a metadata column and a content column, and let \<open>processRow\<close>
  return a Record for a line from which a metadata value was extracted (the map of the
  values outside the content has the key \<open>metadata\<close>). Then the Record's content is the
  content cell of the tokenized line as it stands (the cells of \<open>parseCSVLine\<close> are
  trimmed), and the empty string when the line has no cell at the content index. No JSON
  function takes part: the right-hand side does not mention \<open>JSON_parse\<close> or
  \<open>JSON_stringify\<close>.
\<close>

theorem passthrough_content_verbatim:
  assumes "columnIndex columnNames COLUMN_METADATA \<noteq> - 1"
    and "findContentColumnIndex columnNames \<noteq> - 1"
    and "processRow line columnNames requiredKeysIndices
           (findColumnIndices columnNames KEYS_OUTSIDE_CONTENT)
           (findContentColumnIndex columnNames) = Inr row"
    and "map_has (extractKeysOutsideContent (parseCSVLine line)
                    (findColumnIndices columnNames KEYS_OUTSIDE_CONTENT)) COLUMN_METADATA"
  shows "content row = orEmpty (at (parseCSVLine line) (findContentColumnIndex columnNames))"
  using assms(2,4) processRow_Inr(4) [OF assms(3)]
  by (simp add: extract_has [OF keys_outside(3)] at_parse_trimmed)

theorem passthrough_content_verbatim_witness:
  "processRow ''Task,execute_actions,gAAAAABk==,v1'' [''name'', ''type'', ''content'', ''metadata'']
      [(0, ''name''), (1, ''type'')]
      (findColumnIndices [''name'', ''type'', ''content'', ''metadata''] KEYS_OUTSIDE_CONTENT)
      (findContentColumnIndex [''name'', ''type'', ''content'', ''metadata''])
     = Inr \<lparr>name = ''Task'', content = ''gAAAAABk=='', type = ''execute_actions'', metadata = ''v1''\<rparr>
   \<and> orEmpty (at (parseCSVLine ''Task,execute_actions,gAAAAABk==,v1'')
                 (findContentColumnIndex [''name'', ''type'', ''content'', ''metadata'']))
     = ''gAAAAABk==''"
proof -
  let ?cols = "[''name'', ''type'', ''content'', ''metadata'']"
  let ?line = "''Task,execute_actions,gAAAAABk==,v1''"
  let ?row = "\<lparr>name = ''Task'', content = ''gAAAAABk=='', type = ''execute_actions'', metadata = ''v1''\<rparr>"
  have h1: "columnIndex ?cols COLUMN_METADATA \<noteq> - 1" by code_simp
  have h2: "findContentColumnIndex ?cols \<noteq> - 1" by code_simp
  have h3: "processRow ?line ?cols [(0, ''name''), (1, ''type'')]
              (findColumnIndices ?cols KEYS_OUTSIDE_CONTENT) (findContentColumnIndex ?cols) = Inr ?row"
    by code_simp
  have h4: "map_has (extractKeysOutsideContent (parseCSVLine ?line)
                    (findColumnIndices ?cols KEYS_OUTSIDE_CONTENT)) COLUMN_METADATA"
    by code_simp
  from passthrough_content_verbatim [OF h1 h2 h3 h4] h3 show ?thesis by simp
qed

text \<open>
  C9: under a header with a metadata column and a content column, the flag \<open>hasMetadata\<close>
  of \<open>processRow\<close> holds exactly when the row has a cell at the metadata index. A row
  whose metadata cell is there is materialized in passthrough mode, its content the
  content cell and its metadata that cell, so the empty string for an empty cell (the
  witness); a row with no cell at the metadata index gets the content that
  \<open>buildContent\<close> assembles.
\<close>

theorem empty_metadata_cell_selects_passthrough:
  assumes "columnIndex columnNames COLUMN_METADATA \<noteq> - 1"
    and "findContentColumnIndex columnNames \<noteq> - 1"
    and "processRow line columnNames requiredKeysIndices
           (findColumnIndices columnNames KEYS_OUTSIDE_CONTENT)
           (findContentColumnIndex columnNames) = Inr row"
  shows "(map_has (extractKeysOutsideContent (parseCSVLine line)
                     (findColumnIndices columnNames KEYS_OUTSIDE_CONTENT)) COLUMN_METADATA
            \<longleftrightarrow> at (parseCSVLine line) (columnIndex columnNames COLUMN_METADATA) \<noteq> None)
       \<and> (at (parseCSVLine line) (columnIndex columnNames COLUMN_METADATA) = Some cell \<longrightarrow>
            content row = orEmpty (at (parseCSVLine line) (findContentColumnIndex columnNames))
            \<and> metadata row = cell)
       \<and> (at (parseCSVLine line) (columnIndex columnNames COLUMN_METADATA) = None \<longrightarrow>
            content row = buildContent (parseCSVLine line) columnNames
                            (findColumnIndices columnNames KEYS_OUTSIDE_CONTENT)
                            (findContentColumnIndex columnNames))"
  using assms(2) processRow_Inr(3,4) [OF assms(3)]
  by (simp add: extract_has [OF keys_outside(3)] at_parse_trimmed)

theorem empty_metadata_cell_selects_passthrough_witness:
  "at (parseCSVLine ''Task,execute_actions,gAAAAABk==,'')
      (columnIndex [''name'', ''type'', ''content'', ''metadata''] COLUMN_METADATA) = Some []
   \<and> processRow ''Task,execute_actions,gAAAAABk==,'' [''name'', ''type'', ''content'', ''metadata'']
        [(0, ''name''), (1, ''type'')]
        (findColumnIndices [''name'', ''type'', ''content'', ''metadata''] KEYS_OUTSIDE_CONTENT)
        (findContentColumnIndex [''name'', ''type'', ''content'', ''metadata''])
      = Inr \<lparr>name = ''Task'', content = ''gAAAAABk=='', type = ''execute_actions'', metadata = []\<rparr>
   \<and> orEmpty (at (parseCSVLine ''Task,execute_actions,gAAAAABk==,'')
                 (findContentColumnIndex [''name'', ''type'', ''content'', ''metadata'']))
      = ''gAAAAABk==''"
proof -
  let ?cols = "[''name'', ''type'', ''content'', ''metadata'']"
  let ?line = "''Task,execute_actions,gAAAAABk==,''"
  let ?row = "\<lparr>name = ''Task'', content = ''gAAAAABk=='', type = ''execute_actions'', metadata = []\<rparr>"
  have h1: "columnIndex ?cols COLUMN_METADATA \<noteq> - 1" by code_simp
  have h2: "findContentColumnIndex ?cols \<noteq> - 1" by code_simp
  have h3: "processRow ?line ?cols [(0, ''name''), (1, ''type'')]
              (findColumnIndices ?cols KEYS_OUTSIDE_CONTENT) (findContentColumnIndex ?cols) = Inr ?row"
    by code_simp
  have c: "at (parseCSVLine ?line) (columnIndex ?cols COLUMN_METADATA) = Some []" by code_simp
  from empty_metadata_cell_selects_passthrough [OF h1 h2 h3] c
  have "content ?row = orEmpty (at (parseCSVLine ?line) (findContentColumnIndex ?cols))"
    by blast
  then have "orEmpty (at (parseCSVLine ?line) (findContentColumnIndex ?cols)) = ''gAAAAABk==''"
    by simp
  with c h3 show ?thesis by (intro conjI)
qed

subsection \<open>Fatal and recoverable errors\<close>

text \<open>
  C3: when no field of the header line equals \<open>name\<close> up to case, or none equals \<open>type\<close>
  up to case, \<open>parseCSV\<close> throws and returns no Record: the error is the one for a
  document of a single line, for a header without names, or for the missing required
  column, in the order in which \<open>parseCSV\<close> checks.
\<close>

theorem missing_required_column_is_fatal:
  assumes "(\<forall>col \<in> set (parseCSVLine (hd (split (CHR 0x0A) (trim csvText)))).
              toLowerCase col \<noteq> toLowerCase COLUMN_NAME)
         \<or> (\<forall>col \<in> set (parseCSVLine (hd (split (CHR 0x0A) (trim csvText)))).
              toLowerCase col \<noteq> toLowerCase COLUMN_TYPE)"
  shows "parseCSV csvText =
           (if length (split (CHR 0x0A) (trim csvText)) \<le> 1 then Inl NoLines
            else if parseHeader (hd (split (CHR 0x0A) (trim csvText))) = None then Inl NoColumnNames
            else Inl RequiredKeysNotInHeader)"
proof -
  let ?lines = "split (CHR 0x0A) (trim csvText)"
  have "validateRequiredKeys cols = None" if "parseHeader (hd ?lines) = Some cols" for cols
  proof -
    from that have "set cols \<subseteq> set (parseCSVLine (hd ?lines))"
      by (auto simp: parseHeader_def Let_def parse_trimmed split: if_splits)
    with assms have "columnIndex cols COLUMN_NAME = - 1 \<or> columnIndex cols COLUMN_TYPE = - 1"
      unfolding columnIndex_none by blast
    then show ?thesis by (auto simp: validateRequiredKeys_eq)
  qed
  then show ?thesis
    by (cases "parseHeader (hd ?lines)") (auto simp: parseCSV_def Let_def le_Suc_eq)
qed

theorem missing_required_column_is_fatal_witness:
  "parseCSVLine (hd (split (CHR 0x0A) (trim ''Name,content\<newline>Task,{}''))) = [''Name'', ''content'']
   \<and> parseCSV ''Name,content\<newline>Task,{}'' = Inl RequiredKeysNotInHeader"
proof -
  have f: "parseCSVLine (hd (split (CHR 0x0A) (trim ''Name,content\<newline>Task,{}'')))
             = [''Name'', ''content'']"
    by code_simp
  have h: "\<forall>col \<in> set (parseCSVLine (hd (split (CHR 0x0A) (trim ''Name,content\<newline>Task,{}'')))).
      toLowerCase col \<noteq> toLowerCase COLUMN_TYPE"
    unfolding f by code_simp
  have l: "\<not> length (split (CHR 0x0A) (trim ''Name,content\<newline>Task,{}'')) \<le> 1" by code_simp
  have p: "parseHeader (hd (split (CHR 0x0A) (trim ''Name,content\<newline>Task,{}''))) \<noteq> None"
    by code_simp
  from missing_required_column_is_fatal [of "''Name,content\<newline>Task,{}''"] h l p
  have "parseCSV ''Name,content\<newline>Task,{}'' = Inl RequiredKeysNotInHeader"
    by presburger
  with f show ?thesis by (intro conjI)
qed

text \<open>
  C4 as the specification states it fails. \<open>parseCSV\<close> trims the whole text before it
  splits it into lines, so blank data rows at the end of a document are not rows any
  more: the document \<open>name,type\<close> followed by one line holding a space has a header that
  resolves and one blank data row, and the import throws the fatal ``no lines'' error
  instead of leaving the row out. With a non-blank data row that lacks the type value
  in its place the import returns no Record and does not throw.
\<close>

theorem blank_trailing_rows_counterexample:
  \<open>split (CHR 0x0A) ''name,type\<newline> \<newline>'' = [''name,type'', '' '', []]
   \<and> parseHeader ''name,type'' = Some [''name'', ''type'']
   \<and> validateRequiredKeys [''name'', ''type''] = Some [(0, ''name''), (1, ''type'')]
   \<and> isBlank '' ''
   \<and> parseCSV ''name,type\<newline> \<newline>'' = Inl NoLines
   \<and> parseCSV ''name,type\<newline>x\<newline>'' = Inr []\<close>
  by code_simp

text \<open>
  C4, amended: take a document whose header resolves (\<open>parseHeader\<close> and
  \<open>validateRequiredKeys\<close> succeed on the first line of the trimmed text). If the trimmed
  text has at least one line after the header, \<open>parseCSV\<close> returns Records and does not
  throw: the Records are, in the order of the lines, the results of \<open>processRow\<close> on the
  data lines that are neither blank nor lacking a value at a required index, and the
  other data lines are left out. If the trimmed text has no line after the header,
  \<open>parseCSV\<close> throws the fatal ``no lines'' error.
\<close>

theorem row_problems_skip_only_that_row:
  assumes "split (CHR 0x0A) (trim csvText) = headerLine # dataLines"
    and "parseHeader headerLine = Some columnNames"
    and "validateRequiredKeys columnNames = Some requiredKeysIndices"
  shows "(dataLines = [] \<longrightarrow> parseCSV csvText = Inl NoLines)
       \<and> (dataLines \<noteq> [] \<longrightarrow>
            (\<exists>rows. parseCSV csvText = Inr rows
               \<and> map Inr rows =
                   map (\<lambda>line. processRow line columnNames requiredKeysIndices
                                 (findColumnIndices columnNames KEYS_OUTSIDE_CONTENT)
                                 (findContentColumnIndex columnNames))
                       (filter (\<lambda>line. \<not> isBlank line
                                  \<and> \<not> lacksRequired columnNames (parseCSVLine line))
                          dataLines)))"
proof (intro conjI impI)
  assume "dataLines = []"
  with assms(1) show "parseCSV csvText = Inl NoLines"
    by (simp add: parseCSV_def)
next
  assume dne: "dataLines \<noteq> []"
  let ?P = "\<lambda>line. processRow line columnNames requiredKeysIndices
                             (findColumnIndices columnNames KEYS_OUTSIDE_CONTENT)
                             (findContentColumnIndex columnNames)"
  have skip: "isl (?P line) \<longleftrightarrow> \<not> (\<not> isBlank line \<and> \<not> lacksRequired columnNames (parseCSVLine line))"
    for line
    using assms(3)
    by (auto simp: processRow_isl isBlank_def lacksRequired_def validateRow_iff
        validateRequiredKeys_eq REQUIRED_KEYS_def split: if_splits)
  have "map Inr (map projr (filter (\<lambda>r. \<not> isl r) (map ?P dataLines)))
          = filter (\<lambda>r. \<not> isl r) (map ?P dataLines)"
    by (induction dataLines) (auto simp: sum.collapse(2))
  also have "\<dots> = map ?P (filter (\<lambda>line. \<not> isl (?P line)) dataLines)"
    by (simp add: filter_map comp_def)
  also have "\<dots> = map ?P (filter (\<lambda>line. \<not> isBlank line \<and> \<not> lacksRequired columnNames (parseCSVLine line))
                      dataLines)"
    by (simp add: skip)
  finally show "\<exists>rows. parseCSV csvText = Inr rows
               \<and> map Inr rows =
                   map ?P (filter (\<lambda>line. \<not> isBlank line
                                  \<and> \<not> lacksRequired columnNames (parseCSVLine line))
                          dataLines)"
    by (simp add: parseCSV_valid [OF assms(1) dne assms(2,3)] importRows_eq)
qed

theorem row_problems_skip_only_that_row_witness:
  "filter (\<lambda>line. \<not> isBlank line \<and> \<not> lacksRequired [''name'', ''type''] (parseCSVLine line))
      [''a,b'', '' '', '',c'', ''d'', ''e,f'']
     = [''a,b'', ''e,f'']
   \<and> parseCSV ''name,type\<newline>a,b\<newline> \<newline>,c\<newline>d\<newline>e,f''
     = Inr [\<lparr>name = ''a'', content = ''{}'', type = ''b'', metadata = []\<rparr>,
            \<lparr>name = ''e'', content = ''{}'', type = ''f'', metadata = []\<rparr>]
   \<and> parseCSV ''name,type\<newline> \<newline>'' = Inl NoLines"
proof -
  let ?text = "''name,type\<newline>a,b\<newline> \<newline>,c\<newline>d\<newline>e,f''"
  let ?cols = "[''name'', ''type'']"
  let ?req = "[(0, ''name''), (1, ''type'')] :: (int \<times> string) list"
  let ?P = "\<lambda>line. processRow line ?cols ?req (findColumnIndices ?cols KEYS_OUTSIDE_CONTENT)
                     (findContentColumnIndex ?cols)"
  have h1: "split (CHR 0x0A) (trim ?text) = ''name,type'' # [''a,b'', '' '', '',c'', ''d'', ''e,f'']"
    by code_simp
  have h2: "[''a,b'', '' '', '',c'', ''d'', ''e,f''] \<noteq> []" by simp
  have h3: "parseHeader ''name,type'' = Some ?cols" by code_simp
  have h4: "validateRequiredKeys ?cols = Some ?req" by code_simp
  have f: "filter (\<lambda>line. \<not> isBlank line \<and> \<not> lacksRequired ?cols (parseCSVLine line))
             [''a,b'', '' '', '',c'', ''d'', ''e,f''] = [''a,b'', ''e,f'']"
    by code_simp
  have m: "map ?P [''a,b'', ''e,f'']
             = [Inr \<lparr>name = ''a'', content = ''{}'', type = ''b'', metadata = []\<rparr>,
                Inr \<lparr>name = ''e'', content = ''{}'', type = ''f'', metadata = []\<rparr>]"
    by code_simp
  from row_problems_skip_only_that_row [OF h1 h3 h4] h2
  obtain rows where r: "parseCSV ?text = Inr rows"
    and mp: "map Inr rows = map ?P (filter (\<lambda>line. \<not> isBlank line \<and> \<not> lacksRequired ?cols (parseCSVLine line))
             [''a,b'', '' '', '',c'', ''d'', ''e,f''])"
    by blast
  have "map (Inr :: CSVRow \<Rightarrow> error + CSVRow) rows
               = [Inr \<lparr>name = ''a'', content = ''{}'', type = ''b'', metadata = []\<rparr>,
                  Inr \<lparr>name = ''e'', content = ''{}'', type = ''f'', metadata = []\<rparr>]"
    using mp unfolding f m .
  then have rows: "rows = [\<lparr>name = ''a'', content = ''{}'', type = ''b'', metadata = []\<rparr>,
                     \<lparr>name = ''e'', content = ''{}'', type = ''f'', metadata = []\<rparr>]"
    by (auto simp: map_eq_Cons_conv)
  have g1: "split (CHR 0x0A) (trim ''name,type\<newline> \<newline>'') = ''name,type'' # []"
    by code_simp
  from row_problems_skip_only_that_row [OF g1 h3 h4]
  have n: "parseCSV ''name,type\<newline> \<newline>'' = Inl NoLines"
    by blast
  from r rows have p: "parseCSV ?text
     = Inr [\<lparr>name = ''a'', content = ''{}'', type = ''b'', metadata = []\<rparr>,
            \<lparr>name = ''e'', content = ''{}'', type = ''f'', metadata = []\<rparr>]"
    by simp
  from f p n show ?thesis by (intro conjI)
qed

text \<open>
  C8: every Record that \<open>parseCSV\<close> returns has a non-empty identity (\<open>name\<close>) and a
  non-empty \<open>type\<close>.
\<close>

theorem records_have_identity_and_type:
  assumes "parseCSV csvText = Inr rows" and "row \<in> set rows"
  shows "name row \<noteq> [] \<and> type row \<noteq> []"
proof -
  from assms(1) obtain headerLine dataLines cols req where
    req: "validateRequiredKeys cols = Some req" and
    rows: "rows = importRows cols req (findColumnIndices cols KEYS_OUTSIDE_CONTENT)
              (findContentColumnIndex cols) [] dataLines"
    by (rule parseCSV_Inr)
  from assms(2) obtain line where
    "processRow line cols req (findColumnIndices cols KEYS_OUTSIDE_CONTENT)
       (findContentColumnIndex cols) = Inr row"
    unfolding rows importRows_eq by (auto simp: sum.collapse(2))
  note r = processRow_Inr [OF this]
  from required_row_values [OF req r(6)] r(1,2) show ?thesis by simp
qed

theorem records_have_identity_and_type_witness:
  "parseCSV ''Type,NAME,extra\<newline>t1, n1 ,x\<newline>,n2,y\<newline>t3,n3''
     = Inr [\<lparr>name = ''n1'', content = ''{\"EXTRA\":\"x\"}'', type = ''t1'', metadata = []\<rparr>,
            \<lparr>name = ''n3'', content = ''{}'', type = ''t3'', metadata = []\<rparr>]
   \<and> name \<lparr>name = ''n3'', content = ''{}'', type = ''t3'', metadata = []\<rparr> \<noteq> []
   \<and> type \<lparr>name = ''n3'', content = ''{}'', type = ''t3'', metadata = []\<rparr> \<noteq> []"
proof -
  let ?r1 = "\<lparr>name = ''n1'', content = ''{\"EXTRA\":\"x\"}'', type = ''t1'', metadata = []\<rparr>"
  let ?r3 = "\<lparr>name = ''n3'', content = ''{}'', type = ''t3'', metadata = []\<rparr>"
  have h: "parseCSV ''Type,NAME,extra\<newline>t1, n1 ,x\<newline>,n2,y\<newline>t3,n3'' = Inr [?r1, ?r3]"
    by code_simp
  have mem: "?r3 \<in> set [?r1, ?r3]" by simp
  from records_have_identity_and_type [OF h mem] h show ?thesis by (intro conjI) simp_all
qed

subsection \<open>The Tokenizer and the escaping of the Serializer\<close>

text \<open>
  C5: \<open>parseCSVLine\<close> returns the fields that the specification describes: the line read
  by the quote-state machine \<open>unquote\<close>, cut at the commas outside quotes, each field
  trimmed. Every field it returns is trimmed; there is one field more than there are
  commas outside quotes, so no field is skipped; a quoted field in which every quote is
  doubled gives the field with single quotes; a comma after a piece that ends outside
  quotes separates the fields of the two sides, and two such commas in a row put an
  empty field between them.
\<close>

theorem tokenizer_fields:
  \<open>parseCSVLine line = map trim (fieldsOf (unquote False line))
   \<and> map trim (parseCSVLine line) = parseCSVLine line
   \<and> length (parseCSVLine line) = Suc (count_list (unquote False line) None)
   \<and> parseCSVLine ([CHR ''"''] @ doubleQuotes v @ [CHR ''"'']) = [trim v]
   \<and> (\<not> quoteState False a \<longrightarrow>
        parseCSVLine (a @ '','' @ b) = parseCSVLine a @ parseCSVLine b)
   \<and> (\<not> quoteState False a \<longrightarrow>
        parseCSVLine (a @ '',,'' @ b) = parseCSVLine a @ [''''] @ parseCSVLine b)\<close>
proof -
  have c1: "parseCSVLine line = map trim (fieldsOf (unquote False line))"
    by (rule parse_refine)
  have c2: "map trim (parseCSVLine line) = parseCSVLine line"
    by (rule parse_trimmed)
  have c3: "length (parseCSVLine line) = Suc (count_list (unquote False line) None)"
    by (simp add: parse_refine length_fieldsOf)
  have c4: \<open>parseCSVLine ([CHR ''"''] @ doubleQuotes v @ [CHR ''"'']) = [trim v]\<close>
    by (rule parse_quoted)
  have c5: "\<not> quoteState False a \<longrightarrow> parseCSVLine (a @ '','' @ b) = parseCSVLine a @ parseCSVLine b"
    by (simp add: parse_append_comma)
  have c6: "\<not> quoteState False a \<longrightarrow>
              parseCSVLine (a @ '',,'' @ b) = parseCSVLine a @ [''''] @ parseCSVLine b"
  proof
    assume outside: "\<not> quoteState False a"
    have "parseCSVLine (a @ CHR '','' # (CHR '','' # b))
            = parseCSVLine a @ parseCSVLine ([] @ CHR '','' # b)"
      using outside by (simp add: parse_append_comma)
    also have "parseCSVLine ([] @ CHR '','' # b) = parseCSVLine [] @ parseCSVLine b"
      by (rule parse_append_comma) simp
    finally show "parseCSVLine (a @ '',,'' @ b) = parseCSVLine a @ [''''] @ parseCSVLine b"
      by (simp add: parse_empty)
  qed
  from c1 c2 c3 c4 c5 c6 show ?thesis by (intro conjI)
qed

theorem tokenizer_fields_witness:
  \<open>\<not> quoteState False ''x, "p,""q" '' \<and>
   parseCSVLine (''x, "p,""q" '' @ '','' @ ''y'') = [''x'', ''p,"q'', ''y''] \<and>
   parseCSVLine (''x, "p,""q" '' @ '',,'' @ ''y'') = [''x'', ''p,"q'', '''', ''y'']\<close>
proof -
  have h: \<open>\<not> quoteState False ''x, "p,""q" ''\<close> by code_simp
  have a: \<open>parseCSVLine ''x, "p,""q" '' = [''x'', ''p,"q'']\<close> by code_simp
  have b: "parseCSVLine ''y'' = [''y'']" by code_simp
  note t = tokenizer_fields [of "[]" "[]" \<open>''x, "p,""q" ''\<close> "''y''"]
  from t h have s1: \<open>parseCSVLine (''x, "p,""q" '' @ '','' @ ''y'')
                       = parseCSVLine ''x, "p,""q" '' @ parseCSVLine ''y''\<close>
    by blast
  from t h have s2: \<open>parseCSVLine (''x, "p,""q" '' @ '',,'' @ ''y'')
                       = parseCSVLine ''x, "p,""q" '' @ [[]] @ parseCSVLine ''y''\<close>
    by blast
  show ?thesis unfolding s1 s2 a b using h by simp
qed

text \<open>
  C6: tokenizing the escaped form of a string gives that one string, trimmed; for a
  string that the Tokenizer can return as a field (any \<open>v\<close> among the fields of some
  line), it gives back the string itself. The witness is the value
  \<open>He said "hi", twice\<close> of the specification.
\<close>

theorem escape_then_tokenize:
  "parseCSVLine (escapeCSVValue (JSValue (JStr v))) = [trim v]
   \<and> (v \<in> set (parseCSVLine line) \<longrightarrow> parseCSVLine (escapeCSVValue (JSValue (JStr v))) = [v])"
proof -
  have "trim v = v" if "v \<in> set (parseCSVLine line)"
    using that parse_trimmed [of line] by (metis map_idI map_eq_conv list.map_id)
  then show ?thesis by (simp add: parse_escape)
qed

theorem escape_then_tokenize_witness:
  \<open>''He said "hi", twice'' \<in> set (parseCSVLine ''7,"He said ""hi"", twice"'')
   \<and> escapeCSVValue (JSValue (JStr ''He said "hi", twice'')) = ''"He said ""hi"", twice"''
   \<and> parseCSVLine (escapeCSVValue (JSValue (JStr ''He said "hi", twice'')))
       = [''He said "hi", twice'']\<close>
proof -
  have h: \<open>''He said "hi", twice'' \<in> set (parseCSVLine ''7,"He said ""hi"", twice"'')\<close>
    by code_simp
  have e: \<open>escapeCSVValue (JSValue (JStr ''He said "hi", twice'')) = ''"He said ""hi"", twice"''\<close>
    by code_simp
  from escape_then_tokenize [of \<open>''He said "hi", twice''\<close> \<open>''7,"He said ""hi"", twice"''\<close>] h
  have r: \<open>parseCSVLine (escapeCSVValue (JSValue (JStr ''He said "hi", twice'')))
             = [''He said "hi", twice'']\<close>
    by blast
  from h e r show ?thesis by (intro conjI)
qed

subsection \<open>Empty header fields shift the cells\<close>


subsection \<open>Import followed by export\<close>




end
